theory Spec2Isabelle
  imports Complex_Main "HOL-Library.Product_Lexorder" "HOL-Library.AList" "HOL-Library.Log_Nat"
begin

section \<open>Python numbers\<close>

text \<open>
  Python exceptions that the modelled code can raise; those about a name carry it.
\<close>

datatype py_error =
  AttributeError string | ValidationError string | OverflowError | ZeroDivisionError

text \<open>
  Python integers are unbounded, hence \<open>int\<close>. A Python \<open>float\<close> is an IEEE 754 binary64
  number; a finite one is represented by its exact value, a rational. The result of an
  arithmetic operation is the exact result rounded to the nearest representable number,
  ties to the even significand.

  \<open>pow2 k\<close> is 2 to the power \<open>k\<close> for an integer \<open>k\<close>.
\<close>

definition pow2 :: "int \<Rightarrow> rat" where
  "pow2 k = (if 0 \<le> k then 2 ^ nat k else 1 / 2 ^ nat (- k))"

text \<open>The nearest integer, a tie going to the even one.\<close>

definition round_half_even :: "rat \<Rightarrow> int" where
  "round_half_even x =
     (let f = \<lfloor>x\<rfloor>; d = x - of_int f
      in if d < 1 / 2 then f else if 1 / 2 < d then f + 1 else if even f then f else f + 1)"

text \<open>
  The binary exponent of a positive rational \<open>x\<close>: the integer \<open>e\<close> with
  \<open>2^e \<le> x < 2^(e+1)\<close>. The bit lengths of numerator and denominator give it up to one.
\<close>

definition float_exponent :: "rat \<Rightarrow> int" where
  "float_exponent x =
     (case quotient_of x of (a, b) \<Rightarrow>
        (let d = bitlen a - bitlen b in if pow2 d \<le> x then d else d - 1))"

text \<open>
  Rounding to binary64: 53 significant bits, so the spacing at exponent \<open>e\<close> is
  \<open>2^(e-52)\<close>, and never less than \<open>2^(-1074)\<close>, the spacing of the subnormal numbers. The
  result is the exact value of the double, or a value of at least \<open>2^1024\<close> in magnitude
  when the rounded result is out of range.
\<close>

definition round_double :: "rat \<Rightarrow> rat" where
  "round_double x =
     (if x = 0 then 0
      else
        (let k = max (float_exponent \<bar>x\<bar> - 52) (- 1074)
         in sgn x * of_int (round_half_even (\<bar>x\<bar> / pow2 k)) * pow2 k))"

text \<open>
  \<open>a / b\<close> on two Python integers: the correctly rounded quotient as a float;
  \<open>ZeroDivisionError\<close> for a zero divisor and \<open>OverflowError\<close> when the result is too large
  for a float.
\<close>

definition py_truediv :: "int \<Rightarrow> int \<Rightarrow> py_error + rat" where
  "py_truediv a b =
     (if b = 0 then Inl ZeroDivisionError
      else
        (let y = round_double (of_int a / of_int b)
         in if 2 ^ 1024 \<le> \<bar>y\<bar> then Inl OverflowError else Inr y))"

text \<open>
  A float that is the result of a multiplication: a product out of range is an infinity,
  not an exception.
\<close>

datatype py_float = Finite rat | PlusInf | MinusInf

definition py_float_mul :: "rat \<Rightarrow> rat \<Rightarrow> py_float" where
  "py_float_mul x y =
     (let z = round_double (x * y)
      in if 2 ^ 1024 \<le> z then PlusInf else if z \<le> - (2 ^ 1024) then MinusInf else Finite z)"

text \<open>\<open>int(x)\<close> on a finite float: truncation towards zero.\<close>

definition py_int :: "rat \<Rightarrow> int" where
  "py_int x = (if x < 0 then - \<lfloor>- x\<rfloor> else \<lfloor>x\<rfloor>)"

section \<open>Data model (src/core/models.py)\<close>

text \<open>
  The thresholds \<open>MASTERY_CONSECUTIVE_CORRECT\<close>, \<open>MASTERY_MIN_ATTEMPTS\<close> and
  \<open>MASTERY_SUCCESS_RATE\<close> are imported from \<open>config.settings\<close>, which is not among the
  sources; the functions that read them take them as a parameter. The rate threshold is
  a finite number, given by its exact value.
\<close>

record settings =
  MASTERY_CONSECUTIVE_CORRECT :: int
  MASTERY_MIN_ATTEMPTS :: int
  MASTERY_SUCCESS_RATE :: rat

text \<open>Class \<open>Word\<close>. The field \<open>text\<close> of the source is called \<open>word_text\<close> here.\<close>

record Word =
  word_text :: string
  consecutive_correct :: int
  total_attempts :: int
  correct_count :: int
  incorrect_count :: int
  is_mastered :: bool
  priority_score :: int

text \<open>\<open>Word(text=word)\<close>: every other field takes its declared default.\<close>

definition new_Word :: "string \<Rightarrow> Word" where
  "new_Word t =
     \<lparr>word_text = t, consecutive_correct = 0, total_attempts = 0, correct_count = 0,
      incorrect_count = 0, is_mastered = False, priority_score = 100\<rparr>"

section \<open>Mastery and priority algorithm (src/core/adaptive_learning.py)\<close>

text \<open>
  \<open>AdaptiveLearning.is_word_mastered\<close>: four early returns, in the source's order. The
  success rate is the float quotient of the two counters, or the integer 0; the
  function has no handler, so an exception of the division leaves it.
\<close>

definition is_word_mastered :: "settings \<Rightarrow> Word \<Rightarrow> py_error + bool" where
  "is_word_mastered cfg word =
     (if consecutive_correct word < MASTERY_CONSECUTIVE_CORRECT cfg then Inr False
      else if total_attempts word < MASTERY_MIN_ATTEMPTS cfg then Inr False
      else if correct_count word < MASTERY_MIN_ATTEMPTS cfg then Inr False
      else
        (case (if total_attempts word > 0
               then py_truediv (correct_count word) (total_attempts word)
               else Inr 0) of
           Inl e \<Rightarrow> Inl e
         | Inr success_rate \<Rightarrow>
             if success_rate < MASTERY_SUCCESS_RATE cfg then Inr False else Inr True))"

text \<open>
  \<open>AdaptiveLearning.update_word_status\<close> mutates the word and returns a flag; the model
  returns the flag together with the updated word. The body is inside \<open>try\<close>: when
  \<open>is_word_mastered\<close> raises, the three increments made before the call stay, the rest of
  the branch is skipped and the handler returns \<open>False\<close>. The other statements are integer
  arithmetic and field assignments, which do not raise.
\<close>

definition update_word_status :: "settings \<Rightarrow> Word \<Rightarrow> bool \<Rightarrow> bool \<times> Word" where
  "update_word_status cfg word is_correct =
     (if is_correct then
        (let word = word\<lparr>consecutive_correct := consecutive_correct word + 1\<rparr>;
             word = word\<lparr>correct_count := correct_count word + 1\<rparr>;
             word = word\<lparr>total_attempts := total_attempts word + 1\<rparr>
         in case is_word_mastered cfg word of
              Inl e \<Rightarrow> (False, word)
            | Inr mastered \<Rightarrow>
                (let word = (if mastered then word\<lparr>is_mastered := True\<rparr> else word);
                     word = word\<lparr>priority_score := max 1 (priority_score word - 20)\<rparr>
                 in (True, word)))
      else
        (let word = word\<lparr>consecutive_correct := 0\<rparr>;
             word = word\<lparr>incorrect_count := incorrect_count word + 1\<rparr>;
             word = word\<lparr>total_attempts := total_attempts word + 1\<rparr>;
             word = word\<lparr>is_mastered := False\<rparr>;
             word = word\<lparr>priority_score := min 100 (priority_score word + 30)\<rparr>
         in (True, word)))"

text \<open>A sequence of answers applied to one word, oldest answer first.\<close>

definition apply_answers :: "settings \<Rightarrow> Word \<Rightarrow> bool list \<Rightarrow> Word" where
  "apply_answers cfg word answers =
     foldl (\<lambda>w is_correct. snd (update_word_status cfg w is_correct)) word answers"

text \<open>The state invariant of an item: counters add up and are not negative, priority in 1..100.\<close>

definition Word_invariant :: "Word \<Rightarrow> bool" where
  "Word_invariant w \<longleftrightarrow>
     total_attempts w = correct_count w + incorrect_count w \<and>
     0 \<le> consecutive_correct w \<and> 0 \<le> total_attempts w \<and>
     0 \<le> correct_count w \<and> 0 \<le> incorrect_count w \<and>
     1 \<le> priority_score w \<and> priority_score w \<le> 100"

text \<open>
  The key function local to \<open>get_next_word_by_priority\<close> (\<open>sort_key\<close> in the source;
  that name is taken by the list library). Tuples are compared lexicographically, as in
  Python.
\<close>

definition word_sort_key :: "string \<times> Word \<Rightarrow> int \<times> int \<times> int" where
  "word_sort_key item =
     (case item of (text, word) \<Rightarrow>
        (let has_recent_error = (incorrect_count word > 0 \<and> consecutive_correct word = 0)
         in (- (if has_recent_error then 1 else 0), - priority_score word, Word.total_attempts word)))"

text \<open>
  \<open>AdaptiveLearning.get_next_word_by_priority\<close>. The dict \<open>words\<close> is an association list
  in insertion order (its keys are distinct); \<open>list.sort(key=...)\<close> is the stable
  \<open>sort_key\<close>. Indexing the sorted list at 0 would raise on an empty list, which the
  \<open>except\<close> branch turns into \<open>None\<close>. The defensive branch recurses on the dict without
  the selected key.
\<close>

function get_next_word_by_priority :: "(string \<times> Word) list \<Rightarrow> string option" where
  "get_next_word_by_priority words =
     (let unmastered_words = filter (\<lambda>(text, word). \<not> is_mastered word) words
      in if unmastered_words = [] then None
         else
           (case sort_key word_sort_key unmastered_words of
              [] \<Rightarrow> None
            | (selected_word, selected_obj) # _ \<Rightarrow>
                if is_mastered selected_obj then
                  (let words_filtered = filter (\<lambda>(k, v). k \<noteq> selected_word) words
                   in if words_filtered \<noteq> [] then get_next_word_by_priority words_filtered
                      else None)
                else Some selected_word))"
  by pat_completeness auto
termination
proof (relation "measure length")
  show "wf (measure length)" by simp
next
  fix words x :: "(string \<times> Word) list" and x21 x22 xa y xb
  assume unm: "x = filter (\<lambda>(text, word). \<not> is_mastered word) words"
    and srt: "sort_key word_sort_key x = x21 # x22"
    and sel: "(xa, y) = x21" and m: "is_mastered y"
  from srt have "x21 \<in> set (sort_key word_sort_key x)" by simp
  then have "x21 \<in> set x" by simp
  with unm sel have "\<not> is_mastered y" by auto
  with m show "(xb, words) \<in> measure length" by simp
qed

declare get_next_word_by_priority.simps [simp del]

text \<open>\<open>AdaptiveLearning.is_session_complete\<close>.\<close>

definition is_session_complete :: "(string \<times> Word) list \<Rightarrow> bool" where
  "is_session_complete words =
     (if words = [] then True else list_all (\<lambda>(text, word). is_mastered word) words)"

text \<open>
  The ordering of section 4.1 of the specification, in its words: an item with a recent
  error comes before one without; then the higher priority; then the fewer attempts.
\<close>

definition spec_has_recent_error :: "Word \<Rightarrow> bool" where
  "spec_has_recent_error w \<longleftrightarrow> incorrect_count w > 0 \<and> consecutive_correct w = 0"

definition spec_selected_before :: "Word \<Rightarrow> Word \<Rightarrow> bool" where
  "spec_selected_before w w' \<longleftrightarrow>
     (spec_has_recent_error w \<and> \<not> spec_has_recent_error w') \<or>
     (spec_has_recent_error w = spec_has_recent_error w' \<and>
        (priority_score w > priority_score w' \<or>
         (priority_score w = priority_score w' \<and>
          Word.total_attempts w \<le> Word.total_attempts w')))"

section \<open>Session statistics (class SessionStats, src/core/models.py)\<close>

text \<open>
  A \<open>datetime\<close> is a number of microseconds on the time line; the difference of two is a
  \<open>timedelta\<close>.
\<close>

type_synonym datetime = int

record SessionStats =
  session_id :: string
  user_id :: int
  dict_id :: string
  dict_name :: string
  started_at :: datetime
  ended_at :: "datetime option"
  total_words :: int
  correct_answers :: int
  incorrect_answers :: int
  words_mastered :: int
  words_mastered_list :: "string list"

text \<open>
  \<open>SessionStats(...)\<close> as \<open>LearningSession.__init__\<close> calls it: the fields not given
  take their defaults, and \<open>total_words\<close> is declared \<open>ge=1\<close>, so the validation of the
  model raises for a smaller value.
\<close>

definition new_SessionStats ::
    "string \<Rightarrow> int \<Rightarrow> string \<Rightarrow> string \<Rightarrow> datetime \<Rightarrow> int \<Rightarrow> SessionStats" where
  "new_SessionStats sid uid did dname started n =
     \<lparr>session_id = sid, user_id = uid, dict_id = did, dict_name = dname,
      started_at = started, ended_at = None, total_words = n,
      correct_answers = 0, incorrect_answers = 0, words_mastered = 0,
      words_mastered_list = []\<rparr>"

definition SessionStats_init ::
    "string \<Rightarrow> int \<Rightarrow> string \<Rightarrow> string \<Rightarrow> datetime \<Rightarrow> int \<Rightarrow> py_error + SessionStats" where
  "SessionStats_init sid uid did dname started n =
     (if n < 1 then Inl (ValidationError ''total_words'')
      else Inr (new_SessionStats sid uid did dname started n))"

text \<open>
  Property \<open>SessionStats.duration_seconds\<close>: \<open>total_seconds()\<close> is the float quotient of
  the microseconds of the difference by \<open>10**6\<close>, and \<open>int\<close> truncates it.
\<close>

definition duration_seconds :: "SessionStats \<Rightarrow> py_error + int" where
  "duration_seconds self =
     (case ended_at self of
        None \<Rightarrow> Inr 0
      | Some ended \<Rightarrow>
          (case py_truediv (ended - started_at self) 1000000 of
             Inl e \<Rightarrow> Inl e
           | Inr seconds \<Rightarrow> Inr (py_int seconds)))"

text \<open>
  Property \<open>SessionStats.success_rate\<close>: the float quotient, multiplied as a float by 100
  (the integer 100 is a float exactly).
\<close>

definition success_rate :: "SessionStats \<Rightarrow> py_error + py_float" where
  "success_rate self =
     (let total = correct_answers self + incorrect_answers self
      in if total = 0 then Inr (Finite 0)
         else
           (case py_truediv (correct_answers self) total of
              Inl e \<Rightarrow> Inl e
            | Inr ratio \<Rightarrow> Inr (py_float_mul ratio 100)))"

text \<open>Property \<open>SessionStats.is_complete\<close>.\<close>

definition is_complete :: "SessionStats \<Rightarrow> bool" where
  "is_complete self \<longleftrightarrow> words_mastered self \<ge> total_words self"

section \<open>Learning session (src/core/learning_session.py)\<close>

text \<open>\<open>Word(text=word)\<close> with the validation of the model: \<open>text\<close> has \<open>min_length=1\<close>.\<close>

definition Word_init :: "string \<Rightarrow> py_error + Word" where
  "Word_init t = (if length t < 1 then Inl (ValidationError ''text'') else Inr (new_Word t))"

text \<open>
  The dict comprehension \<open>{word: Word(text=word) for word in words_list}\<close>: entries are
  stored in list order, a repeated key keeps its place and takes the later value, and
  the first constructor that raises ends the comprehension.
\<close>

fun build_words :: "string list \<Rightarrow> (string \<times> Word) list \<Rightarrow> py_error + (string \<times> Word) list" where
  "build_words [] acc = Inr acc"
| "build_words (word # rest) acc =
     (case Word_init word of
        Inl e \<Rightarrow> Inl e
      | Inr word_obj \<Rightarrow> build_words rest (AList.update word word_obj acc))"

record LearningSession =
  user_id :: int
  dict_id :: string
  dict_name :: string
  session_id :: string
  words :: "(string \<times> Word) list"
  current_word :: "string option"
  total_words_shown :: int
  stats :: SessionStats

text \<open>
  \<open>LearningSession.__init__\<close>. The eight characters taken from a fresh UUID and the clock
  reading are parameters. \<open>new_LearningSession\<close> is the object the constructor leaves
  once the dict of words and the statistics are built.
\<close>

definition new_LearningSession ::
    "string \<Rightarrow> int \<Rightarrow> string \<Rightarrow> string \<Rightarrow> (string \<times> Word) list \<Rightarrow> SessionStats
       \<Rightarrow> LearningSession" where
  "new_LearningSession uuid8 uid did dname ws st =
     \<lparr>user_id = uid, dict_id = did, dict_name = dname, session_id = uuid8,
      words = ws, current_word = None, total_words_shown = 0, stats = st\<rparr>"

definition LearningSession_init ::
    "string \<Rightarrow> datetime \<Rightarrow> int \<Rightarrow> string \<Rightarrow> string \<Rightarrow> string list \<Rightarrow> py_error + LearningSession" where
  "LearningSession_init uuid8 now uid did dname words_list =
     (case build_words words_list [] of
        Inl e \<Rightarrow> Inl e
      | Inr ws \<Rightarrow>
          (case SessionStats_init uuid8 uid did dname now (int (length words_list)) of
             Inl e \<Rightarrow> Inl e
           | Inr st \<Rightarrow> Inr (new_LearningSession uuid8 uid did dname ws st)))"

text \<open>\<open>LearningSession.get_next_word\<close>: returns the word and the updated session.\<close>

definition get_next_word :: "LearningSession \<Rightarrow> string option \<times> LearningSession" where
  "get_next_word self =
     (if is_session_complete (words self) then (None, self)
      else
        (case get_next_word_by_priority (words self) of
           None \<Rightarrow> (None, self)
         | Some next_word \<Rightarrow>
             (Some next_word,
              self\<lparr>current_word := Some next_word,
                    total_words_shown := total_words_shown self + 1\<rparr>)))"

text \<open>
  \<open>LearningSession.record_answer\<close>: returns the flag and the updated session. The word
  object is mutated in place, which is an update of its entry in the dict. A model
  instance is always truthy, so \<open>if not word_obj\<close> is the test for a missing key.
\<close>

definition record_answer ::
    "settings \<Rightarrow> LearningSession \<Rightarrow> string \<Rightarrow> bool \<Rightarrow> bool \<times> LearningSession" where
  "record_answer cfg self word is_correct =
     (case map_of (words self) word of
        None \<Rightarrow> (False, self)
      | Some word_obj \<Rightarrow>
          (let word_obj = snd (update_word_status cfg word_obj is_correct);
               self = self\<lparr>words := AList.update word word_obj (words self)\<rparr>;
               st = stats self;
               st = (if is_correct then st\<lparr>correct_answers := correct_answers st + 1\<rparr>
                     else st\<lparr>incorrect_answers := incorrect_answers st + 1\<rparr>);
               st = (if is_mastered word_obj then
                       (if word \<notin> set (words_mastered_list st) then
                          st\<lparr>words_mastered_list := words_mastered_list st @ [word],
                              words_mastered := words_mastered st + 1\<rparr>
                        else st)
                     else st)
           in (True, self\<lparr>stats := st\<rparr>)))"

section \<open>Saving a session (src/core/session_persistence.py, src/utils/file_helpers.py)\<close>

text \<open>The values that an attribute of a \<open>Word\<close> or an entry of the JSON file can hold.\<close>

datatype py_value = PyNone | PyBool bool | PyInt int | PyStr string

definition py_truthy :: "py_value \<Rightarrow> bool" where
  "py_truthy v =
     (case v of PyNone \<Rightarrow> False | PyBool b \<Rightarrow> b | PyInt n \<Rightarrow> n \<noteq> 0 | PyStr s \<Rightarrow> s \<noteq> [])"

text \<open>
  Reading \<open>word_obj.name\<close>. An instance of the model \<open>Word\<close> has the seven declared fields
  and no others: any other name raises \<open>AttributeError\<close>.
\<close>

definition Word_getattr :: "Word \<Rightarrow> string \<Rightarrow> py_error + py_value" where
  "Word_getattr w name =
     (if name = ''text'' then Inr (PyStr (word_text w))
      else if name = ''consecutive_correct'' then Inr (PyInt (consecutive_correct w))
      else if name = ''total_attempts'' then Inr (PyInt (Word.total_attempts w))
      else if name = ''correct_count'' then Inr (PyInt (correct_count w))
      else if name = ''incorrect_count'' then Inr (PyInt (incorrect_count w))
      else if name = ''is_mastered'' then Inr (PyBool (is_mastered w))
      else if name = ''priority_score'' then Inr (PyInt (priority_score w))
      else Inl (AttributeError name))"

text \<open>
  The inner dict literal of \<open>save_session\<close> for one word: its values are evaluated in the
  order written, and the first attribute read that raises ends the evaluation. The last
  value is guarded by \<open>hasattr\<close>; none of the values a \<open>Word\<close> attribute can hold has an
  \<open>isoformat\<close> method.
\<close>

definition word_stats_entry :: "Word \<Rightarrow> py_error + (string \<times> py_value) list" where
  "word_stats_entry word_obj =
     (case Word_getattr word_obj ''correct_count'' of Inl e \<Rightarrow> Inl e | Inr v1 \<Rightarrow>
      (case Word_getattr word_obj ''incorrect_count'' of Inl e \<Rightarrow> Inl e | Inr v2 \<Rightarrow>
      (case Word_getattr word_obj ''total_attempts'' of Inl e \<Rightarrow> Inl e | Inr v3 \<Rightarrow>
      (case Word_getattr word_obj ''times_mastered'' of Inl e \<Rightarrow> Inl e | Inr v4 \<Rightarrow>
      (case Word_getattr word_obj ''is_mastered'' of Inl e \<Rightarrow> Inl e | Inr v5 \<Rightarrow>
      (case (case Word_getattr word_obj ''last_attempted'' of
               Inl e \<Rightarrow> Inr PyNone
             | Inr v \<Rightarrow> if py_truthy v then Inl (AttributeError ''isoformat'') else Inr PyNone)
       of Inl e \<Rightarrow> Inl e | Inr v6 \<Rightarrow>
         Inr [(''correct_count'', v1), (''incorrect_count'', v2), (''total_attempts'', v3),
              (''times_mastered'', v4), (''is_mastered'', v5), (''last_attempted'', v6)]))))))"

text \<open>The dict comprehension over \<open>session.words.items()\<close> that builds \<open>words_stats\<close>.\<close>

fun words_stats_of ::
    "(string \<times> Word) list \<Rightarrow> py_error + (string \<times> (string \<times> py_value) list) list" where
  "words_stats_of [] = Inr []"
| "words_stats_of ((word, word_obj) # rest) =
     (case word_stats_entry word_obj of
        Inl e \<Rightarrow> Inl e
      | Inr entry \<Rightarrow>
          (case words_stats_of rest of
             Inl e \<Rightarrow> Inl e
           | Inr entries \<Rightarrow> Inr ((word, entry) # entries)))"

text \<open>The dict \<open>session_data\<close> that \<open>save_session\<close> hands to \<open>save_json\<close>, key by key.\<close>

record session_data =
  user_id :: int
  session_id :: string
  dict_id :: string
  dict_name :: string
  words_list :: "string list"
  current_word :: "string option"
  stats :: SessionStats
  words_stats :: "(string \<times> (string \<times> py_value) list) list"

text \<open>
  The directory \<open>temp_sessions\<close>: whether it exists, and the session files in it, one per
  pair of user id and session id (the file name is built from the two).
\<close>

record disk =
  sessions_dir_exists :: bool
  session_files :: "int \<times> string \<rightharpoonup> session_data"

text \<open>
  The path argument of \<open>save_json\<close>: a \<open>Path\<close> object, or the \<open>str\<close> of one, which is what
  \<open>SessionPersistence\<close> passes.
\<close>

datatype path_arg = PathObject "int \<times> string" | PathString "int \<times> string"

text \<open>
  \<open>save_json\<close> starts with \<open>filepath.parent.mkdir(...)\<close> inside its \<open>try\<close>: on a \<open>str\<close> the
  attribute read raises, the handler logs it and the function returns \<open>False\<close> with
  nothing written. Failures of the file system itself are not modelled.
\<close>

definition save_json :: "disk \<Rightarrow> path_arg \<Rightarrow> session_data \<Rightarrow> bool \<times> disk" where
  "save_json d filepath data =
     (case filepath of
        PathString f \<Rightarrow> (False, d)
      | PathObject f \<Rightarrow>
          (True, d\<lparr>sessions_dir_exists := True, session_files := (session_files d)(f \<mapsto> data)\<rparr>))"

text \<open>
  \<open>SessionPersistence.save_session\<close>: the flag returned and the disk afterwards. The
  result of \<open>save_json\<close> is not looked at.
\<close>

definition save_session :: "disk \<Rightarrow> int \<Rightarrow> LearningSession \<Rightarrow> bool \<times> disk" where
  "save_session d uid session =
     (let d = d\<lparr>sessions_dir_exists := True\<rparr>;
          session_file = (uid, LearningSession.session_id session)
      in case words_stats_of (words session) of
           Inl e \<Rightarrow> (False, d)
         | Inr entries \<Rightarrow>
             (let data = \<lparr>user_id = uid,
                          session_id = LearningSession.session_id session,
                          dict_id = LearningSession.dict_id session,
                          dict_name = LearningSession.dict_name session,
                          words_list = map fst (words session),
                          current_word = LearningSession.current_word session,
                          stats = LearningSession.stats session,
                          words_stats = entries\<rparr>;
                  d = snd (save_json d (PathString session_file) data)
              in (True, d)))"

section \<open>Progress tracker (src/core/progress_tracker.py)\<close>

text \<open>
  Classes \<open>WordProgress\<close> and \<open>UserProgress\<close>. The field \<open>word\<close> of \<open>WordProgress\<close> is
  called \<open>progress_word\<close> here. The nested dicts are association lists in insertion order.
\<close>

record WordProgress =
  progress_word :: string
  total_correct :: int
  total_incorrect :: int
  times_mastered :: int
  last_attempted :: "datetime option"

record UserProgress =
  user_id :: int
  total_words_learned :: int
  total_sessions :: int
  total_attempts :: int
  total_correct :: int
  total_incorrect :: int
  dictionaries_progress :: "(string \<times> (string \<times> WordProgress) list) list"
  created_at :: datetime
  last_activity :: "datetime option"

text \<open>\<open>WordProgress(word=word)\<close> and \<open>UserProgress(user_id=user_id)\<close> with their defaults.\<close>

definition new_WordProgress :: "string \<Rightarrow> WordProgress" where
  "new_WordProgress w =
     \<lparr>progress_word = w, total_correct = 0, total_incorrect = 0, times_mastered = 0,
      last_attempted = None\<rparr>"

definition new_UserProgress :: "int \<Rightarrow> datetime \<Rightarrow> UserProgress" where
  "new_UserProgress uid now =
     \<lparr>user_id = uid, total_words_learned = 0, total_sessions = 0, total_attempts = 0,
      total_correct = 0, total_incorrect = 0, dictionaries_progress = [],
      created_at = now, last_activity = None\<rparr>"

text \<open>
  \<open>ProgressTracker._save_progress\<close>, on the object's field \<open>progress\<close>: it stamps the
  activity time and returns \<open>True\<close>. The write goes through \<open>save_json\<close>, whose result is
  not looked at; the file is not part of this model.
\<close>

definition save_progress :: "datetime \<Rightarrow> UserProgress \<Rightarrow> bool \<times> UserProgress" where
  "save_progress now progress = (True, progress\<lparr>last_activity := Some now\<rparr>)"

text \<open>
  \<open>ProgressTracker.update_word_progress\<close>. The two clock readings are parameters. The
  objects held in the nested dicts are mutated in place, which the model writes back
  into the association lists.
\<close>

definition update_word_progress ::
    "datetime \<Rightarrow> datetime \<Rightarrow> UserProgress \<Rightarrow> string \<Rightarrow> string \<Rightarrow> bool \<Rightarrow> bool
       \<Rightarrow> bool \<times> UserProgress" where
  "update_word_progress now_attempt now_save progress did word is_correct mastered =
     (let dicts = dictionaries_progress progress;
          dicts = (if map_of dicts did = None then AList.update did [] dicts else dicts);
          dict_progress = (case map_of dicts did of None \<Rightarrow> [] | Some dp \<Rightarrow> dp);
          dict_progress =
            (if map_of dict_progress word = None
             then AList.update word (new_WordProgress word) dict_progress
             else dict_progress);
          word_progress =
            (case map_of dict_progress word of None \<Rightarrow> new_WordProgress word | Some wp \<Rightarrow> wp);
          word_progress =
            (if is_correct
             then word_progress\<lparr>WordProgress.total_correct :=
                                  WordProgress.total_correct word_progress + 1\<rparr>
             else word_progress\<lparr>WordProgress.total_incorrect :=
                                  WordProgress.total_incorrect word_progress + 1\<rparr>);
          word_progress = word_progress\<lparr>last_attempted := Some now_attempt\<rparr>;
          word_progress =
            (if mastered \<and> times_mastered word_progress = 0
             then word_progress\<lparr>times_mastered := 1\<rparr>
             else if mastered
             then word_progress\<lparr>times_mastered := times_mastered word_progress + 1\<rparr>
             else word_progress);
          progress = progress\<lparr>UserProgress.total_attempts :=
                                 UserProgress.total_attempts progress + 1\<rparr>;
          progress =
            (if is_correct
             then progress\<lparr>UserProgress.total_correct := UserProgress.total_correct progress + 1\<rparr>
             else progress\<lparr>UserProgress.total_incorrect :=
                               UserProgress.total_incorrect progress + 1\<rparr>);
          progress =
            (if mastered \<and> times_mastered word_progress = 1
             then progress\<lparr>total_words_learned := total_words_learned progress + 1\<rparr>
             else progress);
          progress =
            progress\<lparr>dictionaries_progress :=
                       AList.update did (AList.update word word_progress dict_progress) dicts\<rparr>
      in save_progress now_save progress)"

text \<open>
  \<open>ProgressTracker.update_session_stats\<close>; the parameters \<open>correct_count\<close>,
  \<open>incorrect_count\<close> and \<open>words_mastered\<close> of the source are \<open>n_correct\<close>, \<open>n_incorrect\<close>
  and \<open>mastered_words\<close> here.
\<close>

definition update_session_stats ::
    "datetime \<Rightarrow> UserProgress \<Rightarrow> string \<Rightarrow> int \<Rightarrow> int \<Rightarrow> string list \<Rightarrow> bool \<times> UserProgress" where
  "update_session_stats now progress did n_correct n_incorrect mastered_words =
     (let progress = progress\<lparr>total_sessions := total_sessions progress + 1\<rparr>;
          progress = progress\<lparr>UserProgress.total_correct :=
                                 UserProgress.total_correct progress + n_correct\<rparr>;
          progress = progress\<lparr>UserProgress.total_incorrect :=
                                 UserProgress.total_incorrect progress + n_incorrect\<rparr>;
          dict_progress =
            (case map_of (dictionaries_progress progress) did of None \<Rightarrow> [] | Some dp \<Rightarrow> dp);
          progress =
            foldl (\<lambda>p word.
                     case map_of dict_progress word of
                       None \<Rightarrow> p
                     | Some word_progress \<Rightarrow>
                         if times_mastered word_progress = 1
                         then p\<lparr>total_words_learned := total_words_learned p + 1\<rparr>
                         else p)
                  progress mastered_words
      in save_progress now progress)"

section \<open>Concrete inputs\<close>

text \<open>
  Modelled from the spec: \<open>config/settings.py\<close> is not among the sources; these are the
  default thresholds that section 4.1 of the specification gives (3, 3 and 0.75). Only
  the concrete inputs below use them.
\<close>

definition default_settings :: settings where
  "default_settings =
     \<lparr>MASTERY_CONSECUTIVE_CORRECT = 3, MASTERY_MIN_ATTEMPTS = 3, MASTERY_SUCCESS_RATE = 3 / 4\<rparr>"

text \<open>
  A pool of four items: one mastered, one answered correctly once, one whose last
  answer was wrong, one never shown.
\<close>

definition example_pool :: "(string \<times> Word) list" where
  "example_pool =
     [(''cat'', (new_Word ''cat'')\<lparr>consecutive_correct := 3, Word.total_attempts := 3,
                                     correct_count := 3, is_mastered := True,
                                     priority_score := 40\<rparr>),
      (''dog'', (new_Word ''dog'')\<lparr>consecutive_correct := 1, Word.total_attempts := 1,
                                     correct_count := 1, priority_score := 80\<rparr>),
      (''cow'', (new_Word ''cow'')\<lparr>Word.total_attempts := 1, incorrect_count := 1\<rparr>),
      (''pig'', new_Word ''pig'')]"

definition mastered_pool :: "(string \<times> Word) list" where
  "mastered_pool =
     [(''cat'', (new_Word ''cat'')\<lparr>consecutive_correct := 3, Word.total_attempts := 3,
                                     correct_count := 3, is_mastered := True,
                                     priority_score := 40\<rparr>)]"

text \<open>
  The session that \<open>LearningSession(7, 'd1', 'Animals', ['cat', 'dog'])\<close> builds, after
  its first \<open>get_next_word()\<close> has made \<open>cat\<close> the current word.
\<close>

definition example_session :: LearningSession where
  "example_session =
     (new_LearningSession ''abcd1234'' 7 ''d1'' ''Animals''
        [(''cat'', new_Word ''cat''), (''dog'', new_Word ''dog'')]
        (new_SessionStats ''abcd1234'' 7 ''d1'' ''Animals'' 0 2))
       \<lparr>LearningSession.current_word := Some ''cat'', total_words_shown := 1\<rparr>"

definition empty_disk :: disk where
  "empty_disk = \<lparr>sessions_dir_exists = False, session_files = Map.empty\<rparr>"

text \<open>Session statistics with one correct and one incorrect answer, not finished.\<close>

definition example_stats :: SessionStats where
  "example_stats =
     (new_SessionStats ''abcd1234'' 7 ''d1'' ''Animals'' 0 2)
       \<lparr>correct_answers := 1, incorrect_answers := 1\<rparr>"

text \<open>
  The progress of a new learner after one call
  \<open>update_word_progress('d1', 'cat', True, True)\<close>.
\<close>

definition example_progress :: UserProgress where
  "example_progress =
     snd (update_word_progress 1 2 (new_UserProgress 7 0) ''d1'' ''cat'' True True)"


text \<open>Session statistics with one correct and two incorrect answers.\<close>

definition third_stats :: SessionStats where
  "third_stats =
     (new_SessionStats ''abcd1234'' 7 ''d1'' ''Animals'' 0 2)
       \<lparr>correct_answers := 1, incorrect_answers := 2\<rparr>"

section \<open>Properties of the float operations\<close>

lemma pow2_powi: "pow2 k = 2 powi k"
  by (simp add: pow2_def power_int_def power_inverse field_simps)

lemma pow2_pos: "0 < pow2 k"
  by (simp add: pow2_powi)

lemma pow2_mono: "j \<le> k \<Longrightarrow> pow2 j \<le> pow2 k"
  by (simp add: pow2_powi power_int_increasing)

lemma float_exponent_lower:
  assumes "0 < x"
  shows "pow2 (float_exponent x) \<le> x"
proof -
  obtain a b where q: "quotient_of x = (a, b)" by (cases "quotient_of x")
  then have x: "x = of_int a / of_int b" and b: "0 < b"
    by (simp_all add: quotient_of_div quotient_of_denom_pos)
  with assms have a: "0 < a" by (simp add: zero_less_divide_iff)
  let ?d = "bitlen a - bitlen b"
  show ?thesis
  proof (cases "pow2 ?d \<le> x")
    case True
    with q show ?thesis by (simp add: float_exponent_def Let_def)
  next
    case False
    have la: "(2::rat) powi (bitlen a - 1) \<le> of_int a"
    proof -
      from bitlen_bounds [OF a] have "2 ^ nat (bitlen a - 1) \<le> a" by simp
      then have "(of_int (2 ^ nat (bitlen a - 1)) :: rat) \<le> of_int a" by (simp only: of_int_le_iff)
      moreover have "1 \<le> bitlen a" using a by (simp add: bitlen_alt_def)
      ultimately show ?thesis by (simp add: power_int_def)
    qed
    have lb: "of_int b < (2::rat) powi (bitlen b)"
    proof -
      from bitlen_bounds [OF b] have "b < 2 ^ nat (bitlen b)" by simp
      then have "(of_int b :: rat) < of_int (2 ^ nat (bitlen b))" by (simp only: of_int_less_iff)
      then show ?thesis using bitlen_nonneg [of b] by (simp add: power_int_def)
    qed
    have "pow2 (?d - 1) = 2 powi (bitlen a - 1) / 2 powi (bitlen b)"
      by (simp add: pow2_powi power_int_diff)
    also have "\<dots> \<le> of_int a / 2 powi (bitlen b)"
      using la by (simp add: divide_right_mono)
    also have "\<dots> \<le> of_int a / of_int b"
      using lb a b by (simp add: frac_le)
    finally have "pow2 (?d - 1) \<le> x" using x by simp
    with False q show ?thesis by (simp add: float_exponent_def Let_def)
  qed
qed

lemma round_half_even_bounds:
  assumes "0 \<le> x"
  shows "0 \<le> round_half_even x \<and> of_int (round_half_even x) \<le> x + 1"
proof -
  define f where "f = \<lfloor>x\<rfloor>"
  have f0: "0 \<le> f" using assms by (simp add: f_def)
  have f1: "(of_int f :: rat) \<le> x" by (simp add: f_def)
  have "round_half_even x = f \<or> round_half_even x = f + 1"
    by (simp add: round_half_even_def Let_def f_def)
  then show ?thesis
  proof
    assume "round_half_even x = f"
    with f0 f1 show ?thesis by simp
  next
    assume "round_half_even x = f + 1"
    with f0 f1 show ?thesis by simp
  qed
qed

lemma round_double_bounds:
  assumes "0 \<le> x"
  shows "0 \<le> round_double x \<and> round_double x \<le> 2 * x + 1"
proof (cases "x = 0")
  case True
  then show ?thesis by (simp add: round_double_def)
next
  case False
  with assms have x: "0 < x" by simp
  define k where "k = max (float_exponent \<bar>x\<bar> - 52) (- 1074)"
  define r where "r = round_half_even (\<bar>x\<bar> / pow2 k)"
  have rd: "round_double x = of_int r * pow2 k"
    using x by (simp add: round_double_def k_def r_def Let_def)
  have "0 \<le> \<bar>x\<bar> / pow2 k" using pow2_pos [of k] by simp
  from round_half_even_bounds [OF this]
  have r0: "0 \<le> r" and r1: "of_int r \<le> x / pow2 k + 1" using x by (simp_all add: r_def)
  have pk: "pow2 k \<le> x + 1"
  proof (cases "float_exponent \<bar>x\<bar> - 52 \<le> - 1074")
    case True
    then have "k = - 1074" by (simp add: k_def)
    then have "pow2 k \<le> pow2 0" by (simp add: pow2_mono)
    also have "\<dots> = 1" by (simp add: pow2_def)
    finally show ?thesis using x by simp
  next
    case False
    then have "k = float_exponent x - 52" using x by (simp add: k_def)
    then have "pow2 k \<le> pow2 (float_exponent x)" by (simp add: pow2_mono)
    also have "\<dots> \<le> x" by (rule float_exponent_lower [OF x])
    finally show ?thesis by simp
  qed
  have "of_int r * pow2 k \<le> (x / pow2 k + 1) * pow2 k"
    using r1 pow2_pos [of k] by (simp add: mult_right_mono)
  also have "\<dots> = x + pow2 k" using pow2_pos [of k] by (simp add: field_simps)
  also have "\<dots> \<le> 2 * x + 1" using pk by simp
  finally have "round_double x \<le> 2 * x + 1" by (simp add: rd)
  moreover have "0 \<le> round_double x" using r0 pow2_pos [of k] by (simp add: rd)
  ultimately show ?thesis by simp
qed

lemma py_truediv_unit:
  assumes "0 \<le> a" and "a \<le> b" and "0 < b"
  shows "py_truediv a b = Inr (round_double (of_int a / of_int b))
       \<and> 0 \<le> round_double (of_int a / of_int b)
       \<and> round_double (of_int a / of_int b) \<le> 3"
proof -
  let ?q = "of_int a / of_int b :: rat"
  from assms have q0: "0 \<le> ?q" and q1: "?q \<le> 1" by simp_all
  from round_double_bounds [OF q0] q1
  have r: "0 \<le> round_double ?q" "round_double ?q \<le> 3" by simp_all
  have "(3::rat) < 2 ^ 1024" by simp
  with r have "\<not> 2 ^ 1024 \<le> \<bar>round_double ?q\<bar>" by simp
  with assms r show ?thesis by (simp add: py_truediv_def Let_def)
qed

lemma py_float_mul_percent:
  assumes "0 \<le> x" and "x \<le> 3"
  shows "py_float_mul x 100 = Finite (round_double (x * 100))"
proof -
  from assms have x0: "0 \<le> x * 100" and x1: "x * 100 \<le> 300" by simp_all
  from round_double_bounds [OF x0] x1
  have r: "0 \<le> round_double (x * 100)" "round_double (x * 100) \<le> 601" by simp_all
  have "(601::rat) < 2 ^ 1024" by simp
  with r have "\<not> 2 ^ 1024 \<le> round_double (x * 100)"
    and "\<not> round_double (x * 100) \<le> - (2 ^ 1024)" by simp_all
  then show ?thesis by (simp add: py_float_mul_def Let_def)
qed




lemma round_double_half: "round_double (1 / 2) = 1 / 2"
  by code_simp

lemma round_double_fifty: "round_double 50 = 50"
  by code_simp

lemma round_double_third_percent:
  "round_double (round_double (1 / 3) * 100) = 2345624805922133 / 70368744177664"
  by code_simp

section \<open>Properties of the mastery predicate and the answer update\<close>



text \<open>
  Claim C3. An incorrect answer resets the streak to 0, adds 1 to the incorrect and the
  attempt counters, clears the mastery flag whatever the item was before, raises the
  priority by 30 capped at 100, and leaves the correct counter (and the text) as they
  were. In particular a mastered item with streak 3, 3 attempts and 3 correct answers
  goes to streak 0, 4 attempts, 1 incorrect answer, not mastered.
\<close>

theorem update_word_status_incorrect:
  "update_word_status cfg w False =
     (True, w\<lparr>consecutive_correct := 0,
              incorrect_count := incorrect_count w + 1,
              Word.total_attempts := Word.total_attempts w + 1,
              is_mastered := False,
              priority_score := min 100 (priority_score w + 30)\<rparr>)
   \<and> correct_count (snd (update_word_status cfg w False)) = correct_count w
   \<and> snd (update_word_status cfg
            ((new_Word t)\<lparr>consecutive_correct := 3, Word.total_attempts := 3, correct_count := 3,
                           is_mastered := True\<rparr>) False)
       = (new_Word t)\<lparr>consecutive_correct := 0, Word.total_attempts := 4, correct_count := 3,
                       incorrect_count := 1, is_mastered := False, priority_score := 100\<rparr>"
  by (simp add: update_word_status_def Let_def new_Word_def)

lemma Word_invariant_new: "Word_invariant (new_Word t)"
  by (simp add: Word_invariant_def new_Word_def)

lemma Word_invariant_update:
  assumes "Word_invariant w"
  shows "Word_invariant (snd (update_word_status cfg w is_correct))"
  using assms
  by (cases is_correct)
     (auto simp: Word_invariant_def update_word_status_def Let_def split: sum.splits)

lemma Word_invariant_foldl:
  "Word_invariant w \<Longrightarrow>
   Word_invariant (foldl (\<lambda>w is_correct. snd (update_word_status cfg w is_correct)) w answers)"
  by (induction answers arbitrary: w) (simp_all add: Word_invariant_update)

text \<open>
  Claim C7. Every item reached from a freshly created one by any sequence of answer
  updates has attempts = correct + incorrect, no negative counter, and a priority
  between 1 and 100.
\<close>

theorem apply_answers_invariant:
  "Word.total_attempts (apply_answers cfg (new_Word t) answers)
     = correct_count (apply_answers cfg (new_Word t) answers)
       + incorrect_count (apply_answers cfg (new_Word t) answers)
   \<and> 0 \<le> consecutive_correct (apply_answers cfg (new_Word t) answers)
   \<and> 0 \<le> Word.total_attempts (apply_answers cfg (new_Word t) answers)
   \<and> 0 \<le> correct_count (apply_answers cfg (new_Word t) answers)
   \<and> 0 \<le> incorrect_count (apply_answers cfg (new_Word t) answers)
   \<and> 1 \<le> priority_score (apply_answers cfg (new_Word t) answers)
   \<and> priority_score (apply_answers cfg (new_Word t) answers) \<le> 100"
proof -
  have "Word_invariant (apply_answers cfg (new_Word t) answers)"
    unfolding apply_answers_def by (rule Word_invariant_foldl) (rule Word_invariant_new)
  then show ?thesis by (simp add: Word_invariant_def)
qed

section \<open>Properties of the selection\<close>

lemma sort_key_hd_min:
  assumes "sort_key f xs = y # ys" and "z \<in> set xs"
  shows "f y \<le> f z"
proof -
  have "sorted (map f (y # ys))" using assms(1) sorted_sort_key [of f xs] by simp
  moreover have "z \<in> set (y # ys)" using assms set_sort [of f xs] by simp
  ultimately show ?thesis by auto
qed

lemma sort_key_hd_mem:
  assumes "sort_key f xs = y # ys"
  shows "y \<in> set xs"
proof -
  have "y \<in> set (sort_key f xs)" using assms by simp
  then show ?thesis by simp
qed

lemma word_sort_key_le:
  "word_sort_key (k, w) \<le> word_sort_key (k', w') \<longleftrightarrow> spec_selected_before w w'"
  by (auto simp: word_sort_key_def spec_selected_before_def spec_has_recent_error_def Let_def)

lemma get_next_None:
  "get_next_word_by_priority ws = None \<longleftrightarrow>
     filter (\<lambda>(text, word). \<not> is_mastered word) ws = []"
proof (cases "filter (\<lambda>(text, word). \<not> is_mastered word) ws = []")
  case True
  then show ?thesis by (simp add: get_next_word_by_priority.simps)
next
  case False
  then have "sort_key word_sort_key (filter (\<lambda>(text, word). \<not> is_mastered word) ws) \<noteq> []"
    by (metis length_sort length_0_conv)
  then obtain k w ys where srt:
    "sort_key word_sort_key (filter (\<lambda>(text, word). \<not> is_mastered word) ws) = (k, w) # ys"
    by (cases "sort_key word_sort_key (filter (\<lambda>(text, word). \<not> is_mastered word) ws)") auto
  from sort_key_hd_mem [OF srt] have "\<not> is_mastered w" by simp
  with False srt show ?thesis by (simp add: get_next_word_by_priority.simps)
qed

lemma get_next_Some:
  assumes "get_next_word_by_priority ws = Some k"
  shows "\<exists>w ys. sort_key word_sort_key (filter (\<lambda>(text, word). \<not> is_mastered word) ws)
                  = (k, w) # ys"
proof -
  let ?unm = "filter (\<lambda>(text, word). \<not> is_mastered word) ws"
  from assms have ne: "?unm \<noteq> []" using get_next_None [of ws] by auto
  then have "sort_key word_sort_key ?unm \<noteq> []" by (metis length_sort length_0_conv)
  then obtain k' w ys where srt: "sort_key word_sort_key ?unm = (k', w) # ys"
    by (cases "sort_key word_sort_key ?unm") auto
  from sort_key_hd_mem [OF srt] have "\<not> is_mastered w" by simp
  with ne srt assms have "k' = k" by (simp add: get_next_word_by_priority.simps)
  with srt show ?thesis by blast
qed

lemma get_next_example_pool: "get_next_word_by_priority example_pool = Some ''cow''"
  by (simp add: get_next_word_by_priority.simps example_pool_def new_Word_def
        word_sort_key_def)

lemma get_next_mastered_pool: "get_next_word_by_priority mastered_pool = None"
  by (simp add: get_next_word_by_priority.simps mastered_pool_def new_Word_def)

text \<open>
  Claim C2. For a pool (a dict, so its keys are distinct), the word returned by
  \<open>get_next_word_by_priority\<close> is a key of the pool whose item is not mastered, so the text
  of a mastered item is never returned; and the result is \<open>None\<close> exactly when every item
  of the pool is mastered.
\<close>

theorem get_next_never_mastered:
  assumes "distinct (map fst ws)"
  shows "(\<forall>k. get_next_word_by_priority ws = Some k
             \<longrightarrow> (\<exists>w. map_of ws k = Some w \<and> \<not> is_mastered w))
       \<and> (\<forall>k w. map_of ws k = Some w \<and> is_mastered w
             \<longrightarrow> get_next_word_by_priority ws \<noteq> Some k)
       \<and> (get_next_word_by_priority ws = None
             \<longleftrightarrow> (\<forall>(k, w) \<in> set ws. is_mastered w))"
proof -
  have sel: "\<exists>w. map_of ws k = Some w \<and> \<not> is_mastered w"
    if "get_next_word_by_priority ws = Some k" for k
  proof -
    from that obtain w ys where
      srt: "sort_key word_sort_key (filter (\<lambda>(text, word). \<not> is_mastered word) ws) = (k, w) # ys"
      using get_next_Some by blast
    from sort_key_hd_mem [OF srt] have "(k, w) \<in> set ws" and nm: "\<not> is_mastered w"
      by simp_all
    with assms have "map_of ws k = Some w" by simp
    with nm show ?thesis by blast
  qed
  have none: "get_next_word_by_priority ws = None \<longleftrightarrow> (\<forall>(k, w) \<in> set ws. is_mastered w)"
    unfolding get_next_None by (auto simp: filter_empty_conv)
  from sel have "\<forall>k w. map_of ws k = Some w \<and> is_mastered w
                   \<longrightarrow> get_next_word_by_priority ws \<noteq> Some k"
    by fastforce
  with sel none show ?thesis by blast
qed

theorem get_next_never_mastered_witness:
  "distinct (map fst example_pool)
   \<and> get_next_word_by_priority example_pool = Some ''cow''
   \<and> (\<exists>w. map_of example_pool ''cow'' = Some w \<and> \<not> is_mastered w)
   \<and> (\<exists>w. map_of example_pool ''cat'' = Some w \<and> is_mastered w)
   \<and> get_next_word_by_priority example_pool \<noteq> Some ''cat''
   \<and> distinct (map fst mastered_pool)
   \<and> list_all (\<lambda>(k, w). is_mastered w) mastered_pool
   \<and> get_next_word_by_priority mastered_pool = None"
proof -
  have d1: "distinct (map fst example_pool)" by (simp add: example_pool_def)
  have d2: "distinct (map fst mastered_pool)" by (simp add: mastered_pool_def)
  have m: "\<forall>(k, w) \<in> set mastered_pool. is_mastered w"
    by (simp add: mastered_pool_def new_Word_def)
  have c: "\<exists>w. map_of example_pool ''cat'' = Some w \<and> is_mastered w"
    by (simp add: example_pool_def new_Word_def)
  from m have m': "list_all (\<lambda>(k, w). is_mastered w) mastered_pool"
    by (simp add: list_all_iff)
  from get_next_never_mastered [OF d1] get_next_never_mastered [OF d2] d1 d2 m m' c
    get_next_example_pool
  show ?thesis by auto
qed

text \<open>
  Claim C8. When the pool has an unmastered item, \<open>get_next_word_by_priority\<close> returns the
  key of an unmastered item that comes first in the ordering of the specification: no
  other unmastered item has a recent error when it has none, or, with the same
  recent-error flag, a higher priority, or, with the same priority as well, fewer
  attempts.
\<close>

theorem get_next_minimal:
  assumes "\<exists>(k, w) \<in> set ws. \<not> is_mastered w"
  shows "\<exists>k w. get_next_word_by_priority ws = Some k \<and> (k, w) \<in> set ws
             \<and> \<not> is_mastered w
             \<and> (\<forall>(k', w') \<in> set ws. \<not> is_mastered w' \<longrightarrow> spec_selected_before w w')"
proof -
  let ?unm = "filter (\<lambda>(text, word). \<not> is_mastered word) ws"
  from assms have "?unm \<noteq> []" by (auto simp: filter_empty_conv)
  then have "get_next_word_by_priority ws \<noteq> None" using get_next_None [of ws] by simp
  then obtain k where k: "get_next_word_by_priority ws = Some k" by auto
  then obtain w ys where srt: "sort_key word_sort_key ?unm = (k, w) # ys"
    using get_next_Some by blast
  from sort_key_hd_mem [OF srt] have mem: "(k, w) \<in> set ws" "\<not> is_mastered w" by simp_all
  have "spec_selected_before w w'" if "(k', w') \<in> set ws" "\<not> is_mastered w'" for k' w'
  proof -
    from that have "(k', w') \<in> set ?unm" by simp
    from sort_key_hd_min [OF srt this] show ?thesis by (simp add: word_sort_key_le)
  qed
  with k mem show ?thesis by blast
qed

theorem get_next_minimal_witness:
  "(\<exists>(k, w) \<in> set example_pool. \<not> is_mastered w)
   \<and> get_next_word_by_priority example_pool = Some ''cow''
   \<and> (\<exists>k w. get_next_word_by_priority example_pool = Some k \<and> (k, w) \<in> set example_pool
          \<and> \<not> is_mastered w
          \<and> (\<forall>(k', w') \<in> set example_pool. \<not> is_mastered w' \<longrightarrow> spec_selected_before w w'))"
proof -
  have h: "\<exists>(k, w) \<in> set example_pool. \<not> is_mastered w"
    by (simp add: example_pool_def new_Word_def)
  from get_next_minimal [OF h] h get_next_example_pool show ?thesis by blast
qed

section \<open>Properties of the session\<close>

lemma example_session_built:
  "LearningSession_init ''abcd1234'' 0 7 ''d1'' ''Animals'' [''cat'', ''dog'']
     = Inr (new_LearningSession ''abcd1234'' 7 ''d1'' ''Animals''
              [(''cat'', new_Word ''cat''), (''dog'', new_Word ''dog'')]
              (new_SessionStats ''abcd1234'' 7 ''d1'' ''Animals'' 0 2))"
  by (simp add: LearningSession_init_def Word_init_def SessionStats_init_def)

lemma example_session_shown:
  "get_next_word (new_LearningSession ''abcd1234'' 7 ''d1'' ''Animals''
                    [(''cat'', new_Word ''cat''), (''dog'', new_Word ''dog'')]
                    (new_SessionStats ''abcd1234'' 7 ''d1'' ''Animals'' 0 2))
     = (Some ''cat'', example_session)"
  by (simp add: get_next_word_def example_session_def new_LearningSession_def
        is_session_complete_def get_next_word_by_priority.simps new_Word_def
        word_sort_key_def)

text \<open>
  Claim C5, as stated, fails: \<open>record_answer\<close> does not compare the word with the
  current word. In the example session the current word is \<open>cat\<close>; an answer for \<open>dog\<close>
  is accepted and counted.
\<close>

theorem record_answer_not_current_counterexample:
  "LearningSession.current_word example_session = Some ''cat''
   \<and> fst (record_answer default_settings example_session ''dog'' True) = True
   \<and> correct_answers (LearningSession.stats example_session) = 0
   \<and> correct_answers (LearningSession.stats
        (snd (record_answer default_settings example_session ''dog'' True))) = 1
   \<and> snd (record_answer default_settings example_session ''dog'' True) \<noteq> example_session"
proof -
  have r: "correct_answers (LearningSession.stats
             (snd (record_answer default_settings example_session ''dog'' True))) = 1"
    by (simp add: record_answer_def example_session_def new_LearningSession_def
          new_SessionStats_def new_Word_def update_word_status_def is_word_mastered_def
          default_settings_def Let_def)
  have z: "correct_answers (LearningSession.stats example_session) = 0"
    by (simp add: example_session_def new_LearningSession_def new_SessionStats_def)
  have f: "fst (record_answer default_settings example_session ''dog'' True) = True"
    by (simp add: record_answer_def example_session_def new_LearningSession_def Let_def)
  have c: "LearningSession.current_word example_session = Some ''cat''"
    by (simp add: example_session_def)
  from r z have "snd (record_answer default_settings example_session ''dog'' True)
                   \<noteq> example_session"
    by auto
  with r z f c show ?thesis by simp
qed

text \<open>
  Claim C5, amended. \<open>record_answer\<close> returns \<open>False\<close> exactly when the word is not a key
  of the session's pool, and in that case the whole session (every item and the
  statistics) is left as it was. For every key of the pool, whether it is the current
  word or not, it returns \<open>True\<close>, applies the answer update to that item and to no other
  entry, adds 1 to the counter of correct or of incorrect answers, and leaves the current
  word as it was.
\<close>

theorem record_answer_pool_word:
  "(map_of (words s) t = None \<longrightarrow> record_answer cfg s t c = (False, s))
   \<and> (\<forall>word_obj. map_of (words s) t = Some word_obj \<longrightarrow>
         fst (record_answer cfg s t c) = True
         \<and> words (snd (record_answer cfg s t c))
             = AList.update t (snd (update_word_status cfg word_obj c)) (words s)
         \<and> correct_answers (LearningSession.stats (snd (record_answer cfg s t c)))
             = correct_answers (LearningSession.stats s) + (if c then 1 else 0)
         \<and> incorrect_answers (LearningSession.stats (snd (record_answer cfg s t c)))
             = incorrect_answers (LearningSession.stats s) + (if c then 0 else 1)
         \<and> LearningSession.current_word (snd (record_answer cfg s t c))
             = LearningSession.current_word s)"
  by (simp add: record_answer_def Let_def)

theorem record_answer_pool_word_witness:
  "map_of (words example_session) ''cow'' = None
   \<and> record_answer default_settings example_session ''cow'' True = (False, example_session)
   \<and> map_of (words example_session) ''dog'' = Some (new_Word ''dog'')
   \<and> LearningSession.current_word example_session = Some ''cat''
   \<and> fst (record_answer default_settings example_session ''dog'' True) = True
   \<and> map_of (words (snd (record_answer default_settings example_session ''dog'' True))) ''dog''
       = Some ((new_Word ''dog'')\<lparr>consecutive_correct := 1, Word.total_attempts := 1,
                                     correct_count := 1, priority_score := 80\<rparr>)
   \<and> correct_answers (LearningSession.stats
        (snd (record_answer default_settings example_session ''dog'' True))) = 1"
proof -
  have h1: "map_of (words example_session) ''cow'' = None"
    by (simp add: example_session_def new_LearningSession_def)
  have h2: "map_of (words example_session) ''dog'' = Some (new_Word ''dog'')"
    by (simp add: example_session_def new_LearningSession_def)
  have w: "words example_session = [(''cat'', new_Word ''cat''), (''dog'', new_Word ''dog'')]"
    by (simp add: example_session_def new_LearningSession_def)
  have u: "snd (update_word_status default_settings (new_Word ''dog'') True)
             = (new_Word ''dog'')\<lparr>consecutive_correct := 1, Word.total_attempts := 1,
                                    correct_count := 1, priority_score := 80\<rparr>"
    by (simp add: update_word_status_def is_word_mastered_def default_settings_def
          new_Word_def Let_def)
  have z: "correct_answers (LearningSession.stats example_session) = 0"
    by (simp add: example_session_def new_LearningSession_def new_SessionStats_def)
  have c: "LearningSession.current_word example_session = Some ''cat''"
    by (simp add: example_session_def)
  from record_answer_pool_word [of example_session "''cow''" default_settings True]
       record_answer_pool_word [of example_session "''dog''" default_settings True]
       h1 h2 w u z c
  show ?thesis by simp
qed

section \<open>Properties of the session statistics\<close>

lemma success_rate_example_stats: "success_rate example_stats = Inr (Finite 50)"
proof -
  from py_truediv_unit [of 1 2] have "py_truediv 1 2 = Inr (1 / 2)"
    by (simp add: round_double_half)
  moreover from py_float_mul_percent [of "1 / 2"] have "py_float_mul (1 / 2) 100 = Finite 50"
    by (simp add: round_double_fifty)
  ultimately show ?thesis
    by (simp add: success_rate_def example_stats_def new_SessionStats_def Let_def)
qed

text \<open>
  Claim C9, as stated, fails: \<open>success_rate\<close> is a percentage, not the ratio. With one
  correct and one incorrect answer it is 50, and the ratio is 1/2.
\<close>

theorem success_rate_ratio_counterexample:
  "success_rate example_stats = Inr (Finite 50)
   \<and> success_rate example_stats
       \<noteq> Inr (Finite (of_int (correct_answers example_stats)
                        / of_int (correct_answers example_stats
                                  + incorrect_answers example_stats)))"
proof -
  have "correct_answers example_stats = 1 \<and> incorrect_answers example_stats = 1"
    by (simp add: example_stats_def new_SessionStats_def)
  with success_rate_example_stats show ?thesis by simp
qed

text \<open>
  Claim C9, amended. For session statistics whose answer counters are not negative (they
  are declared \<open>ge=0\<close> and only incremented), \<open>success_rate\<close> is the percentage of correct
  answers as the code computes it in floats: the ratio of correct answers to all answers
  rounded to the nearest float, multiplied by 100 and rounded again; it is 0 when there
  are no answers, and it never raises or overflows. \<open>duration_seconds\<close> is 0 whenever
  \<open>ended_at\<close> is unset.
\<close>

theorem success_rate_percentage:
  assumes "0 \<le> correct_answers st" and "0 \<le> incorrect_answers st"
  shows "success_rate st
           = Inr (Finite
               (if correct_answers st + incorrect_answers st = 0 then 0
                else round_double
                       (round_double (of_int (correct_answers st)
                                        / of_int (correct_answers st + incorrect_answers st))
                        * 100)))
       \<and> (ended_at st = None \<longrightarrow> duration_seconds st = Inr 0)"
proof -
  have d: "ended_at st = None \<longrightarrow> duration_seconds st = Inr 0"
    by (simp add: duration_seconds_def)
  show ?thesis
  proof (cases "correct_answers st + incorrect_answers st = 0")
    case True
    with d show ?thesis by (simp add: success_rate_def)
  next
    case False
    with assms have pos: "0 < correct_answers st + incorrect_answers st" by simp
    from assms have le: "correct_answers st \<le> correct_answers st + incorrect_answers st"
      by simp
    let ?r = "round_double (of_int (correct_answers st)
                              / of_int (correct_answers st + incorrect_answers st))"
    from py_truediv_unit [OF assms(1) le pos]
    have q: "py_truediv (correct_answers st) (correct_answers st + incorrect_answers st)
               = Inr ?r"
      and r: "0 \<le> ?r" "?r \<le> 3"
      by simp_all
    from py_float_mul_percent [OF r]
    have "py_float_mul ?r 100 = Finite (round_double (?r * 100))" .
    with q False d show ?thesis by (simp add: success_rate_def Let_def)
  qed
qed

theorem success_rate_percentage_witness:
  "0 \<le> correct_answers third_stats \<and> 0 \<le> incorrect_answers third_stats
   \<and> success_rate third_stats = Inr (Finite (2345624805922133 / 70368744177664))
   \<and> ended_at third_stats = None \<and> duration_seconds third_stats = Inr 0"
proof -
  have n: "correct_answers third_stats = 1 \<and> incorrect_answers third_stats = 2"
    by (simp add: third_stats_def new_SessionStats_def)
  have h: "ended_at third_stats = None"
    by (simp add: third_stats_def new_SessionStats_def)
  from success_rate_percentage [of third_stats] n h round_double_third_percent
  show ?thesis by simp
qed

section \<open>Properties of saving a session\<close>

lemma word_stats_entry_raises:
  "word_stats_entry word_obj = Inl (AttributeError ''times_mastered'')"
  by (simp add: word_stats_entry_def Word_getattr_def)

lemma words_stats_of_raises:
  "ws \<noteq> [] \<Longrightarrow> words_stats_of ws = Inl (AttributeError ''times_mastered'')"
  by (cases ws) (auto simp: word_stats_entry_raises)

text \<open>
  Claim C10. For every session whose pool is not empty, \<open>save_session\<close> returns \<open>False\<close>
  and writes no session file: building \<open>words_stats\<close> reads \<open>times_mastered\<close> on a \<open>Word\<close>,
  which has no such field, before \<open>save_json\<close> is reached. Only the directory is created.
\<close>

theorem save_session_nonempty_fails:
  assumes "words session \<noteq> []"
  shows "save_session d uid session = (False, d\<lparr>sessions_dir_exists := True\<rparr>)
       \<and> session_files (snd (save_session d uid session)) = session_files d"
  using assms by (simp add: save_session_def Let_def words_stats_of_raises)

theorem save_session_nonempty_fails_witness:
  "words example_session \<noteq> []
   \<and> save_session empty_disk 7 example_session
       = (False, empty_disk\<lparr>sessions_dir_exists := True\<rparr>)
   \<and> session_files (snd (save_session empty_disk 7 example_session)) = session_files empty_disk"
proof -
  have h: "words example_session \<noteq> []"
    by (simp add: example_session_def new_LearningSession_def)
  from save_session_nonempty_fails [OF h, of empty_disk 7] h show ?thesis by simp
qed

lemma save_session_empty_pool:
  "words session = [] \<Longrightarrow>
   save_session d uid session = (True, d\<lparr>sessions_dir_exists := True\<rparr>)"
  by (simp add: save_session_def save_json_def Let_def)

section \<open>Properties of the progress tracker\<close>

lemma foldl_total_words_learned:
  "total_words_learned
     (foldl (\<lambda>p word.
               case map_of dp word of
                 None \<Rightarrow> p
               | Some word_progress \<Rightarrow>
                   if times_mastered word_progress = 1
                   then p\<lparr>total_words_learned := total_words_learned p + 1\<rparr>
                   else p)
            p ms)
   = total_words_learned p
     + int (length (filter (\<lambda>word. case map_of dp word of
                                      None \<Rightarrow> False
                                    | Some word_progress \<Rightarrow> times_mastered word_progress = 1)
                           ms))"
  by (induction ms arbitrary: p) (auto split: option.splits)

lemma foldl_dictionaries_progress:
  "dictionaries_progress
     (foldl (\<lambda>p word.
               case map_of dp word of
                 None \<Rightarrow> p
               | Some word_progress \<Rightarrow>
                   if times_mastered word_progress = 1
                   then p\<lparr>total_words_learned := total_words_learned p + 1\<rparr>
                   else p)
            p ms)
   = dictionaries_progress p"
  by (induction ms arbitrary: p) (auto split: option.splits)

lemma update_session_stats_adds:
  "total_words_learned (snd (update_session_stats now p did nc ni ms))
     = total_words_learned p
       + int (length (filter
           (\<lambda>word. case map_of (case map_of (dictionaries_progress p) did of
                                   None \<Rightarrow> [] | Some dp \<Rightarrow> dp) word of
                      None \<Rightarrow> False
                    | Some word_progress \<Rightarrow> times_mastered word_progress = 1)
           ms))
   \<and> dictionaries_progress (snd (update_session_stats now p did nc ni ms))
       = dictionaries_progress p"
  by (simp add: update_session_stats_def save_progress_def Let_def
        foldl_total_words_learned foldl_dictionaries_progress)

lemma example_progress_value:
  "total_words_learned example_progress = 1
   \<and> dictionaries_progress example_progress
       = [(''d1'', [(''cat'', (new_WordProgress ''cat'')
                                \<lparr>WordProgress.total_correct := 1, times_mastered := 1,
                                  last_attempted := Some 1\<rparr>)])]"
  by (simp add: example_progress_def update_word_progress_def save_progress_def
        new_UserProgress_def new_WordProgress_def Let_def)

text \<open>
  Claim C6 at a concrete progress: \<open>cat\<close> has been mastered once and counted once. The
  same finished session, with the mastered list \<open>['cat']\<close>, is aggregated twice: the
  count of learned words goes from 1 to 2 and then to 3.
\<close>

theorem update_session_stats_twice:
  "total_words_learned example_progress = 1
   \<and> total_words_learned
       (snd (update_session_stats 3 example_progress ''d1'' 3 0 [''cat''])) = 2
   \<and> total_words_learned
       (snd (update_session_stats 4
               (snd (update_session_stats 3 example_progress ''d1'' 3 0 [''cat'']))
               ''d1'' 3 0 [''cat''])) = 3"
  by (simp add: update_session_stats_adds example_progress_value new_WordProgress_def)

end
